theory Spec2Isabelle
  imports Main "HOL-Library.Sublist"
begin

section \<open>Python strings\<close>

text \<open>
  A Python \<open>str\<close> is a sequence of code points. The model is \<open>string\<close>, one
  \<open>char\<close> per code point, which covers the code points below 256; every literal of
  the program lies in that range. A code point above 127 is written \<open>CHR 0x..\<close>.
\<close>

definition lower_char :: "char \<Rightarrow> char" where
  \<comment> \<open>\<open>str.lower\<close> on one code point below 256: A-Z and 0xC0-0xDE, without the
      multiplication sign 0xD7, move up by 32; everything else stays.\<close>
  "lower_char c =
     (let n = (of_char c :: nat)
      in if (65 \<le> n \<and> n \<le> 90) \<or> (192 \<le> n \<and> n \<le> 222 \<and> n \<noteq> 215)
         then char_of (n + 32) else c)"

definition lower :: "string \<Rightarrow> string" where
  "lower s = map lower_char s"

definition is_space :: "char \<Rightarrow> bool" where
  \<comment> \<open>\<open>str.isspace\<close> below 256: 9-13, 28-32, 0x85 and 0xA0.\<close>
  "is_space c =
     (let n = (of_char c :: nat)
      in (9 \<le> n \<and> n \<le> 13) \<or> (28 \<le> n \<and> n \<le> 32) \<or> n = 133 \<or> n = 160)"

definition strip :: "string \<Rightarrow> string" where
  \<comment> \<open>\<open>s.strip()\<close>: leading and trailing whitespace removed.\<close>
  "strip s = rev (dropWhile is_space (rev (dropWhile is_space s)))"

fun str_in :: "string \<Rightarrow> string \<Rightarrow> bool" where
  \<comment> \<open>\<open>p in s\<close>: \<open>p\<close> occurs in \<open>s\<close> as a contiguous run.\<close>
  "str_in p [] = (p = [])"
| "str_in p (c # cs) = (prefix p (c # cs) \<or> str_in p cs)"

function replace :: "string \<Rightarrow> string \<Rightarrow> string \<Rightarrow> string" where
  \<comment> \<open>\<open>s.replace(old, new)\<close>: the occurrences of \<open>old\<close> are taken from the left and
      do not overlap. An empty \<open>old\<close> matches before every code point and at the end.\<close>
  "replace old new s =
     (if old = [] then new @ concat (map (\<lambda>c. c # new) s)
      else if s = [] then []
      else if prefix old s then new @ replace old new (drop (length old) s)
      else hd s # replace old new (tl s))"
  by pat_completeness auto
termination
  by (relation "measure (\<lambda>(old, new, s). length s)") (auto simp: neq_Nil_conv)

function split_from :: "string \<Rightarrow> string \<Rightarrow> string \<Rightarrow> string list" where
  \<comment> \<open>The scan of \<open>str.split\<close>: \<open>cur\<close> holds, reversed, the piece read so far.\<close>
  "split_from sep cur s =
     (if s = [] then [rev cur]
      else if sep \<noteq> [] \<and> prefix sep s then rev cur # split_from sep [] (drop (length sep) s)
      else split_from sep (hd s # cur) (tl s))"
  by pat_completeness auto
termination
  by (relation "measure (\<lambda>(sep, cur, s). length s)") (auto simp: neq_Nil_conv)

definition split :: "string \<Rightarrow> string \<Rightarrow> string list" where
  \<comment> \<open>\<open>s.split(sep)\<close> for a non-empty separator (the program passes literals).\<close>
  "split sep s = split_from sep [] s"

fun join :: "string \<Rightarrow> string list \<Rightarrow> string" where
  \<comment> \<open>\<open>sep.join(xs)\<close>\<close>
  "join sep [] = []"
| "join sep [x] = x"
| "join sep (x # y # ys) = x @ sep @ join sep (y # ys)"

definition py_or :: "string \<Rightarrow> string \<Rightarrow> string" where
  \<comment> \<open>\<open>a or b\<close> on strings: the empty string is false.\<close>
  "py_or a b = (if a = [] then b else a)"

section \<open>The Planner\<close>

text \<open>The dictionary \<open>elements\<close> of \<open>Planner._extract_elements\<close>, with its fixed keys.\<close>

record elements =
  characters :: "string list"
  setting :: string
  mood :: string
  conflict_type :: string
  time_period :: string
  weather :: string
  action :: string

definition extract_elements :: "string \<Rightarrow> elements" where
  "extract_elements brief =
     (let brief_lower = lower brief in
      \<lparr> characters =
          (if str_in ''ivana'' brief_lower then [''Ivana''] else []) @
          (if str_in ''dr. manoel'' brief_lower \<or> str_in ''manoel'' brief_lower
              \<or> str_in ''dr manoel'' brief_lower
           then [''Dr. Manoel''] else []) @
          (if str_in ''pai'' brief_lower \<and> str_in ''filha'' brief_lower
           then [''Pai'', ''Filha''] else []),
        setting =
          (if str_in ''masp'' brief_lower then (''MASP - Museu de Arte de S'' @ [CHR 0xE3] @ ''o Paulo'')
           else if str_in ''biblioteca'' brief_lower then ''Biblioteca antiga''
           else if str_in (''caf'' @ [CHR 0xE9]) brief_lower then (''Caf'' @ [CHR 0xE9] @ '' em S'' @ [CHR 0xE3] @ ''o Paulo'')
           else if str_in (''metr'' @ [CHR 0xF4]) brief_lower \<or> str_in ''metro'' brief_lower
             then (''Esta'' @ [CHR 0xE7, CHR 0xE3] @ ''o de metr'' @ [CHR 0xF4])
           else []),
        mood =
          (if str_in ''tenso'' brief_lower then ''tenso''
           else if str_in ''suspense'' brief_lower then ''suspense''
           else if str_in ''emotivo'' brief_lower then ''emotivo''
           else if str_in (''a'' @ [CHR 0xE7, CHR 0xE3] @ ''o'') brief_lower \<or> str_in ''acao'' brief_lower then (''a'' @ [CHR 0xE7, CHR 0xE3] @ ''o'')
           else []),
        conflict_type =
          (if str_in ''encontro'' brief_lower then ''encontro/confronto''
           else if str_in (''discuss'' @ [CHR 0xE3] @ ''o'') brief_lower \<or> str_in ''discutindo'' brief_lower
             then (''discuss'' @ [CHR 0xE3] @ ''o'')
           else if str_in (''di'' @ [CHR 0xE1] @ ''logo'') brief_lower \<or> str_in ''dialogo'' brief_lower
             then (''di'' @ [CHR 0xE1] @ ''logo'')
           else []),
        time_period =
          (if str_in ''noite'' brief_lower then ''noite''
           else if str_in ''dia'' brief_lower then ''dia''
           else if str_in ''tarde'' brief_lower then ''tarde''
           else if str_in (''manh'' @ [CHR 0xE3]) brief_lower \<or> str_in ''manha'' brief_lower then (''manh'' @ [CHR 0xE3])
           else []),
        weather =
          (if str_in ''chuvosa'' brief_lower \<or> str_in ''chuva'' brief_lower then ''chuva''
           else if str_in ''sol'' brief_lower \<or> str_in ''ensolarado'' brief_lower then ''sol''
           else []),
        action =
          (if str_in ''rush'' brief_lower \<or> str_in ''lotado'' brief_lower
             then ''movimento intenso''
           else if str_in ''vazio'' brief_lower \<or> str_in ''silencioso'' brief_lower
             then ''ambiente calmo''
           else []) \<rparr>)"

text \<open>
  \<open>Planner._create_scene_structure\<close> appends lines to \<open>plan_parts\<close> and joins them
  with newlines. The lines are given block by block, in the order of the source.
\<close>

definition setting_lines :: "elements \<Rightarrow> string list" where
  \<comment> \<open>The lines under the heading of block 1.\<close>
  "setting_lines elements =
     [''- **Local**: '' @ py_or (setting elements) ''Local a definir'',
      (''- **Per'' @ [CHR 0xED] @ ''odo**: '') @ py_or (time_period elements) (''Per'' @ [CHR 0xED] @ ''odo a definir''),
      ''- **Clima**: '' @ py_or (weather elements) ''Clima neutro'',
      ''- **Atmosfera**: '' @ py_or (mood elements) ''Atmosfera neutra''] @
     (if action elements \<noteq> [] then [''- **Movimento**: '' @ action elements] else [])"

definition character_lines :: "elements \<Rightarrow> string list" where
  "character_lines elements =
     (if characters elements \<noteq> [] then map (\<lambda>char. ''- '' @ char) (characters elements)
      else [''- Personagens a definir''])"

definition tense_rain_outline :: "string list" where
  "tense_rain_outline =
     [(''1. **Abertura atmosf'' @ [CHR 0xE9] @
       ''rica**: Estabelecer ambiente tenso com chuva''),
      (''2. **Chegada dos personagens**: Entrada gradual, criando exp'' @
       ''ectativa''),
      (''3. **Confronto inicial**: Primeiras palavras carregadas de t'' @
       ''ens'' @ [CHR 0xE3] @ ''o''),
      (''4. **Escalada da tens'' @ [CHR 0xE3] @ ''o**: Revela'' @
       [CHR 0xE7, CHR 0xF5] @ ''es e posicionamentos''),
      (''5. **Cl'' @ [CHR 0xED] @
       ''max do encontro**: Momento de maior intensidade''),
      (''6. **Resolu'' @ [CHR 0xE7, CHR 0xE3] @
       ''o/gancho**: Desfecho que mant'' @ [CHR 0xE9] @ ''m suspense'')]"

definition emotional_outline :: "string list" where
  "emotional_outline =
     [(''1. **Ambienta'' @ [CHR 0xE7, CHR 0xE3] @
       ''o emotiva**: Estabelecer cen'' @ [CHR 0xE1] @ ''rio '' @ [CHR 0xED] @
       ''ntimo''),
      (''2. **Encontro dos personagens**: Aproxima'' @ [CHR 0xE7, CHR 0xE3] @
       ''o gradual''),
      ''3. **Abertura emocional**: Primeiras palavras sinceras'',
      ''4. **Desenvolvimento**: Aprofundamento da conversa'',
      (''5. **Cl'' @ [CHR 0xED] @
       ''max emocional**: Momento de maior vulnerabilidade''),
      (''6. **Resolu'' @ [CHR 0xE7, CHR 0xE3] @ ''o**: Conex'' @ [CHR 0xE3] @
       ''o ou separa'' @ [CHR 0xE7, CHR 0xE3] @ ''o definitiva'')]"

definition action_outline :: "string list" where
  "action_outline =
     [(''1. **Setup din'' @ [CHR 0xE2] @
       ''mico**: Estabelecer ambiente de movimento''),
      (''2. **Incidente inicial**: Evento que desencadeia a a'' @
       [CHR 0xE7, CHR 0xE3] @ ''o''),
      (''3. **Escalada**: Intensifica'' @ [CHR 0xE7, CHR 0xE3] @
       ''o da situa'' @ [CHR 0xE7, CHR 0xE3] @ ''o''),
      (''4. **Complica'' @ [CHR 0xE7, CHR 0xF5] @ ''es**: Obst'' @ [CHR 0xE1] @
       ''culos e desafios''),
      (''5. **Cl'' @ [CHR 0xED] @ ''max de a'' @ [CHR 0xE7, CHR 0xE3] @
       ''o**: Momento de maior intensidade''),
      (''6. **Resolu'' @ [CHR 0xE7, CHR 0xE3] @ ''o**: Consequ'' @ [CHR 0xEA] @
       ''ncias e desfecho'')]"

definition generic_outline :: "string list" where
  "generic_outline =
     [(''1. **Abertura**: Estabelecer cen'' @ [CHR 0xE1] @ ''rio e atmosfera''),
      (''2. **Desenvolvimento**: Introdu'' @ [CHR 0xE7, CHR 0xE3] @
       ''o dos personagens''),
      (''3. **Conflito**: Tens'' @ [CHR 0xE3] @ ''o ou situa'' @
       [CHR 0xE7, CHR 0xE3] @ ''o central''),
      (''4. **Desenvolvimento**: Aprofundamento da situa'' @
       [CHR 0xE7, CHR 0xE3] @ ''o''),
      (''5. **Cl'' @ [CHR 0xED] @ ''max**: Momento decisivo''),
      (''6. **Resolu'' @ [CHR 0xE7, CHR 0xE3] @ ''o**: Desfecho da cena'')]"

definition progression_lines :: "elements \<Rightarrow> string list" where
  \<comment> \<open>The \<open>if\<close>/\<open>elif\<close> chain under the heading of block 3.\<close>
  "progression_lines elements =
     (if mood elements = ''tenso'' \<and> weather elements = ''chuva'' then tense_rain_outline
      else if mood elements = ''emotivo'' then emotional_outline
      else if mood elements = (''a'' @ [CHR 0xE7, CHR 0xE3] @ ''o'') then action_outline
      else generic_outline)"

definition technical_lines :: "elements \<Rightarrow> string list" where
  "technical_lines elements =
     [''- **Foco narrativo**: Terceira pessoa onisciente''] @
     (if mood elements = ''tenso'' then
        [(''- **Ritmo**: Lento e deliberado, construindo tens'' @ [CHR 0xE3] @ ''o''),
         (''- **Recursos**: Descri'' @ [CHR 0xE7, CHR 0xE3] @
       ''o sensorial, sil'' @ [CHR 0xEA] @ ''ncios significativos'')]
      else if mood elements = (''a'' @ [CHR 0xE7, CHR 0xE3] @ ''o'') then
        [(''- **Ritmo**: R'' @ [CHR 0xE1] @ ''pido e din'' @ [CHR 0xE2] @ ''mico''),
         (''- **Recursos**: Frases curtas, verbos de a'' @ [CHR 0xE7, CHR 0xE3] @
       ''o'')]
      else if mood elements = ''emotivo'' then
        [''- **Ritmo**: Pausado e reflexivo'',
         (''- **Recursos**: Introspec'' @ [CHR 0xE7, CHR 0xE3] @
       ''o, detalhes emotivos'')]
      else
        [''- **Ritmo**: Equilibrado'',
         (''- **Recursos**: Descri'' @ [CHR 0xE7, CHR 0xE3] @ ''o equilibrada'')]) @
     [(''- **Di'' @ [CHR 0xE1] @ ''logos**: Naturais e adequados ao tom da cena'')]"

definition plan_parts :: "elements \<Rightarrow> string \<Rightarrow> string list" where
  "plan_parts elements brief =
     [''## ESTRUTURA DA CENA'',
      ([CHR 0x0A] @ ''**Brief Original:** '') @ brief,
      ([CHR 0x0A] @ ''### 1. AMBIENTA'' @ [CHR 0xC7, CHR 0xC3] @ ''O'')] @
     setting_lines elements @
     [([CHR 0x0A] @ ''### 2. PERSONAGENS'')] @
     character_lines elements @
     [([CHR 0x0A] @ ''### 3. PROGRESS'' @ [CHR 0xC3] @ ''O NARRATIVA'')] @
     progression_lines elements @
     [([CHR 0x0A] @ ''### 4. ELEMENTOS T'' @ [CHR 0xC9] @ ''CNICOS'')] @
     technical_lines elements"

definition create_scene_structure :: "elements \<Rightarrow> string \<Rightarrow> string" where
  "create_scene_structure elements brief = join [CHR 0x0A] (plan_parts elements brief)"

definition plan_scene :: "string \<Rightarrow> string" where
  "plan_scene brief = create_scene_structure (extract_elements brief) brief"

section \<open>The Writer: deterministic fallback\<close>

text \<open>The dictionary \<open>elements\<close> of \<open>Writer._analyze_brief\<close>; its keys carry the suffix
  \<open>_w\<close> here, to keep them apart from the Planner's.\<close>

record scene_elements =
  setting_w :: string
  characters_w :: "string list"
  mood_w :: string
  time_w :: string
  weather_w :: string
  action_w :: string

definition analyze_brief :: "string \<Rightarrow> scene_elements" where
  "analyze_brief brief =
     (let brief_lower = lower brief in
      \<lparr> setting_w =
          (if str_in ''masp'' brief_lower then (''MASP (Museu de Arte de S'' @ [CHR 0xE3] @ ''o Paulo)'')
           else if str_in ''biblioteca'' brief_lower then ''biblioteca antiga''
           else if str_in (''caf'' @ [CHR 0xE9]) brief_lower then (''caf'' @ [CHR 0xE9] @ '' movimentado'')
           else if str_in (''metr'' @ [CHR 0xF4]) brief_lower \<or> str_in ''metro'' brief_lower
             then (''esta'' @ [CHR 0xE7, CHR 0xE3] @ ''o de metr'' @ [CHR 0xF4])
           else []),
        characters_w =
          (if str_in ''ivana'' brief_lower then [''Ivana''] else []) @
          (if str_in ''dr. manoel'' brief_lower \<or> str_in ''manoel'' brief_lower
              \<or> str_in ''dr manoel'' brief_lower
           then [''Dr. Manoel''] else []) @
          (if str_in ''pai'' brief_lower \<and> str_in ''filha'' brief_lower
           then [''pai'', ''filha''] else []),
        mood_w =
          (if str_in ''tenso'' brief_lower then ''tenso''
           else if str_in ''suspense'' brief_lower then ''suspense''
           else if str_in ''emotivo'' brief_lower then ''emotivo''
           else if str_in (''a'' @ [CHR 0xE7, CHR 0xE3] @ ''o'') brief_lower \<or> str_in ''acao'' brief_lower then (''a'' @ [CHR 0xE7, CHR 0xE3] @ ''o'')
           else []),
        time_w =
          (if str_in ''noite'' brief_lower then ''noite''
           else if str_in ''dia'' brief_lower then ''dia''
           else if str_in ''tarde'' brief_lower then ''tarde''
           else if str_in (''manh'' @ [CHR 0xE3]) brief_lower \<or> str_in ''manha'' brief_lower then (''manh'' @ [CHR 0xE3])
           else []),
        weather_w =
          (if str_in ''chuvosa'' brief_lower \<or> str_in ''chuva'' brief_lower then ''chuva''
           else if str_in ''sol'' brief_lower then ''sol''
           else []),
        action_w =
          (if str_in ''encontro'' brief_lower then ''encontro''
           else if str_in (''discuss'' @ [CHR 0xE3] @ ''o'') brief_lower \<or> str_in ''discutindo'' brief_lower
             then (''discuss'' @ [CHR 0xE3] @ ''o'')
           else if str_in (''di'' @ [CHR 0xE1] @ ''logo'') brief_lower \<or> str_in ''dialogo'' brief_lower
             then (''di'' @ [CHR 0xE1] @ ''logo'')
           else if str_in ''rush'' brief_lower \<or> str_in ''lotado'' brief_lower
             then ''movimento intenso''
           else []) \<rparr>)"

definition masp_rain_opening :: string where
  "masp_rain_opening =
     (''A chuva tamborilava contra as grandes janelas do MASP, crian'' @
       ''do um ritmo hipn'' @ [CHR 0xF3] @
       ''tico que ecoava pelos corredores vazios do museu. As luzes d'' @
       ''a Paulista se difundiam atrav'' @ [CHR 0xE9] @ ''s das gotas d'' @
       [CHR 0x27, CHR 0xE1] @ ''gua, pintando sombras dan'' @ [CHR 0xE7] @
       ''antes nas paredes brancas.'')"

definition rain_opening :: "string \<Rightarrow> string" where
  "rain_opening place =
     (''A chuva ca'' @ [CHR 0xED] @
       ''a pesadamente sobre a cidade, criando uma cortina de '' @ [CHR 0xE1] @
       ''gua que transformava '') @
     place @ ('' em um ref'' @ [CHR 0xFA] @ ''gio isolado do mundo exterior.'')"

definition masp_opening :: string where
  "masp_opening =
     (''O MASP se erguia majestoso na Paulista, suas linhas modernas'' @
       '' contrastando com o movimento constante da avenida. No inter'' @
       ''ior, o sil'' @ [CHR 0xEA] @
       ''ncio era quebrado apenas pelos passos ecoando no piso de con'' @
       ''creto polido.'')"

definition cafe_opening :: string where
  "cafe_opening =
     (''O caf'' @ [CHR 0xE9] @
       '' fervilhava de atividade, o aroma intenso misturando-se '' @
       [CHR 0xE0] @ ''s conversas sobrepostas e ao tinir constante de x'' @
       [CHR 0xED] @ ''caras e pratos.'')"

definition library_opening :: string where
  "library_opening =
     (''A biblioteca antiga exalava o cheiro caracter'' @ [CHR 0xED] @
       ''stico de livros velhos e madeira envelhecida. A luz filtrada'' @
       '' pelas janelas altas criava um ambiente solene e contemplati'' @ ''vo.'')"

definition subway_opening :: string where
  "subway_opening =
     (''A esta'' @ [CHR 0xE7, CHR 0xE3] @ ''o de metr'' @ [CHR 0xF4] @
       '' pulsava com o movimento incessante de pessoas. O som dos tr'' @
       ''ens chegando e partindo criava uma sinfonia urbana constante'' @ ''.'')"

definition generic_opening :: string where
  "generic_opening =
     (''O ambiente estava carregado de expectativa, como se algo imp'' @
       ''ortante estivesse prestes a acontecer.'')"

definition ivana_manoel_exchange :: "string list" where
  "ivana_manoel_exchange =
     [([CHR 0x0A] @ ''Ivana chegou primeiro, seus passos ecoando no espa'' @
       [CHR 0xE7] @
       ''o. Dr. Manoel apareceu momentos depois, o semblante grave.''),
      ([CHR 0x0A, CHR 0x22] @ ''Voc'' @ [CHR 0xEA] @ '' veio,'' @ [CHR 0x22] @
       '' disse Ivana.''),
      ([CHR 0x0A, CHR 0x22] @ ''Tinha que vir,'' @ [CHR 0x22] @
       '' respondeu Dr. Manoel. '' @ [CHR 0x22] @
       ''Precisamos resolver isso.'' @ [CHR 0x22]),
      ([CHR 0x0A] @ ''O sil'' @ [CHR 0xEA] @
       ''ncio se estendeu entre eles, carregado de tens'' @ [CHR 0xE3] @ ''o.''),
      ([CHR 0x0A, CHR 0x22] @ ''Ent'' @ [CHR 0xE3] @ ''o voc'' @ [CHR 0xEA] @
       '' sabe a verdade,'' @ [CHR 0x22] @ '' ela disse.''),
      ([CHR 0x0A, CHR 0x22] @ ''Sei mais do que voc'' @ [CHR 0xEA] @
       '' imagina,'' @ [CHR 0x22] @ '' ele respondeu, dando um passo '' @
       [CHR 0xE0] @ '' frente.'')]"

definition father_daughter_vignette :: "string list" where
  "father_daughter_vignette =
     [([CHR 0x0A] @ ''O pai chegou pontualmente, como sempre. Sua filha j'' @
       [CHR 0xE1] @ '' estava l'' @ [CHR 0xE1] @
       '', mexendo nervosamente no celular, evitando o olhar direto q'' @
       ''ue sabia que viria.''),
      ([CHR 0x0A] @
       ''Quando seus olhos finalmente se encontraram, ambos souberam '' @
       ''que aquela conversa n'' @ [CHR 0xE3] @
       ''o poderia ser adiada por mais tempo.'')]"

definition generic_interaction :: string where
  "generic_interaction =
     ([CHR 0x0A] @
       ''Os personagens se encontraram, cada um carregando suas pr'' @
       [CHR 0xF3] @ ''prias inten'' @ [CHR 0xE7, CHR 0xF5] @
       ''es. A conversa que se seguiu revelaria verdades h'' @ [CHR 0xE1] @
       '' muito escondidas.'')"

definition rain_closing :: string where
  "rain_closing =
     ([CHR 0x0A] @ ''L'' @ [CHR 0xE1] @
       '' fora, a chuva continuava caindo, mas algo havia mudado entr'' @
       ''e eles. O que aconteceria a seguir dependeria das escolhas q'' @
       ''ue cada um faria.'')"

definition tense_closing :: string where
  "tense_closing =
     ([CHR 0x0A] @ ''O encontro chegava ao fim, mas as quest'' @ [CHR 0xF5] @
       ''es levantadas ecoariam por muito tempo. Algumas palavras, um'' @
       ''a vez ditas, n'' @ [CHR 0xE3] @ ''o podem ser desfeitas.'')"

definition generic_closing :: string where
  "generic_closing =
     ([CHR 0x0A] @
       ''Quando se separaram, ambos sabiam que nada seria como antes.'' @
       '' As palavras trocadas ecoariam por muito tempo.'')"

definition atmospheric_opening :: "scene_elements \<Rightarrow> string list" where
  \<comment> \<open>What the first \<open>if\<close>/\<open>elif\<close> chain appends to \<open>content\<close>. The inner chain on
      the setting has no \<open>else\<close>: a setting naming none of the four places appends nothing.\<close>
  "atmospheric_opening elements =
     (if weather_w elements = ''chuva'' \<and> str_in ''MASP'' (setting_w elements)
        then [masp_rain_opening]
      else if weather_w elements = ''chuva'' then [rain_opening (setting_w elements)]
      else if setting_w elements \<noteq> [] then
        (if str_in ''MASP'' (setting_w elements) then [masp_opening]
         else if str_in (''caf'' @ [CHR 0xE9]) (setting_w elements) then [cafe_opening]
         else if str_in ''biblioteca'' (setting_w elements) then [library_opening]
         else if str_in (''metr'' @ [CHR 0xF4]) (setting_w elements) then [subway_opening]
         else [])
      else [generic_opening])"

definition character_interactions :: "scene_elements \<Rightarrow> string list" where
  "character_interactions elements =
     (if ''Ivana'' \<in> set (characters_w elements) \<and> ''Dr. Manoel'' \<in> set (characters_w elements)
        then ivana_manoel_exchange
      else if ''pai'' \<in> set (characters_w elements) \<and> ''filha'' \<in> set (characters_w elements)
        then father_daughter_vignette
      else [generic_interaction])"

definition scene_closing :: "scene_elements \<Rightarrow> string list" where
  "scene_closing elements =
     (if weather_w elements = ''chuva'' then [rain_closing]
      else if mood_w elements = ''tenso'' then [tense_closing]
      else [generic_closing])"

definition generate_scene_content :: "scene_elements \<Rightarrow> string \<Rightarrow> string \<Rightarrow> string" where
  "generate_scene_content elements scene_plan brief =
     join [CHR 0x0A] (atmospheric_opening elements @ character_interactions elements @ scene_closing elements)"

definition write_scene_fallback :: "string \<Rightarrow> string \<Rightarrow> string" where
  "write_scene_fallback brief scene_plan =
     (let scene_elements = analyze_brief brief
      in generate_scene_content scene_elements scene_plan brief)"

section \<open>The generation service and the engine\<close>

text \<open>
  What one HTTP request can end in: the request raises, or a response arrives with a
  status code and a body. \<open>Malformed\<close> stands for a body on which reading the JSON
  field raises; \<open>Json v\<close> carries the field read.
\<close>

datatype failure = Timeout | ConnectionError | OtherException

datatype 'a body = Malformed | Json 'a

datatype 'a reply = Raised failure | Response nat "'a body"

text \<open>
  The answers of the service during one call of \<open>LLMEngine.generate\<close>: to the listing
  of the models (the names listed), to the warm-up request, and to the generation
  request (the value of the key \<open>response\<close>, \<open>None\<close> when the key is missing).
\<close>

record service =
  tags_reply :: "string list reply"
  warm_up_reply :: "string option reply"
  generate_reply :: "string option reply"

definition ensure_model_loaded :: "string \<Rightarrow> service \<Rightarrow> bool" where
  "ensure_model_loaded model srv =
     (case tags_reply srv of
        Raised e \<Rightarrow> False
      | Response status_code b \<Rightarrow>
          if status_code \<noteq> 200 then False
          else (case b of
                  Malformed \<Rightarrow> False
                | Json model_names \<Rightarrow>
                    if \<not> list_ex (\<lambda>name. str_in model name) model_names then False
                    else (case warm_up_reply srv of
                            Raised e \<Rightarrow> False
                          | Response test_status b' \<Rightarrow> test_status = 200)))"

fun find_index :: "string \<Rightarrow> string \<Rightarrow> nat option" where
  \<comment> \<open>The lowest index at which \<open>sub\<close> occurs.\<close>
  "find_index sub [] = (if sub = [] then Some 0 else None)"
| "find_index sub (c # cs) =
     (if prefix sub (c # cs) then Some 0 else map_option Suc (find_index sub cs))"

definition find :: "string \<Rightarrow> nat \<Rightarrow> string \<Rightarrow> int" where
  \<comment> \<open>\<open>s.find(sub, start)\<close>: the lowest index from \<open>start\<close> on, or -1.\<close>
  "find sub start s =
     (if length s < start then - 1
      else (case find_index sub (drop start s) of
              None \<Rightarrow> - 1
            | Some i \<Rightarrow> int (start + i)))"

definition slice :: "string \<Rightarrow> int \<Rightarrow> int \<Rightarrow> string" where
  \<comment> \<open>\<open>s[a:b]\<close> for indices that are not negative.\<close>
  "slice s a b = take (nat b - nat a) (drop (nat a) s)"

definition fallback_response :: "string \<Rightarrow> string \<Rightarrow> string" where
  "fallback_response model prompt =
     (let brief =
        (if str_in ''BRIEF DA CENA:'' prompt then
           (let brief_start = find ''BRIEF DA CENA:'' 0 prompt + int (length ''BRIEF DA CENA:'');
                brief_end = find [CHR 0x0A, CHR 0x0A] (nat brief_start) prompt;
                brief_end = (if brief_end = - 1 then brief_start + 200 else brief_end)
            in strip (slice prompt brief_start brief_end))
         else (''cena n'' @ [CHR 0xE3] @ ''o especificada''))
      in (''[Gerado com fallback - Ollama indispon'' @ [CHR 0xED] @ ''vel]'' @
       [CHR 0x0A, CHR 0x0A] @ ''**Cena baseada no brief:** '') @ brief @
         ([CHR 0x0A, CHR 0x0A] @
       ''O ambiente estava carregado de expectativa. A atmosfera dens'' @
       ''a prenunciava que algo importante estava prestes a acontecer'' @
       ''.'' @ [CHR 0x0A, CHR 0x0A] @
       ''Os personagens se encontraram no local combinado, cada um tr'' @
       ''azendo suas pr'' @ [CHR 0xF3] @ ''prias motiva'' @
       [CHR 0xE7, CHR 0xF5] @ ''es e segredos. Havia uma tens'' @ [CHR 0xE3] @
       ''o palp'' @ [CHR 0xE1] @ ''vel no ar, como se as palavras n'' @
       [CHR 0xE3] @
       ''o ditas pesassem mais do que aquelas que seriam pronunciadas'' @
       ''.'' @ [CHR 0x0A, CHR 0x0A, CHR 0x22] @ ''Precisamos conversar,'' @
       [CHR 0x22] @ '' disse uma voz, quebrando o sil'' @ [CHR 0xEA] @
       ''ncio.'' @ [CHR 0x0A, CHR 0x0A, CHR 0x22] @ ''Eu sei,'' @ [CHR 0x22] @
       '' veio a resposta, carregada de significado.'' @ [CHR 0x0A, CHR 0x0A] @
       ''O di'' @ [CHR 0xE1] @
       ''logo que se seguiu revelou camadas de complexidade que nenhu'' @
       ''m dos dois havia antecipado. Cada palavra trocada os aproxim'' @
       ''ava mais de uma verdade que ambos temiam e desejavam ao mesm'' @
       ''o tempo.'' @ [CHR 0x0A, CHR 0x0A] @
       ''Quando o encontro chegou ao fim, ambos sabiam que nada seria'' @
       '' como antes. As decis'' @ [CHR 0xF5] @
       ''es tomadas naquele momento ecoariam por muito tempo, moldand'' @
       ''o o futuro de maneiras que ainda n'' @ [CHR 0xE3] @
       ''o conseguiam compreender completamente.'' @ [CHR 0x0A, CHR 0x0A] @
       ''*[Nota: Para obter conte'' @ [CHR 0xFA] @
       ''do gerado por IA, certifique-se de que o Ollama est'' @ [CHR 0xE1] @
       '' rodando e o modelo '') @
         model @ ('' est'' @ [CHR 0xE1] @ '' dispon'' @ [CHR 0xED] @ ''vel]*''))"

definition generate :: "string \<Rightarrow> service \<Rightarrow> string \<Rightarrow> string" where
  \<comment> \<open>\<open>LLMEngine.generate\<close>. Every exception is caught inside, so a string is always
      returned. The token limit and the temperature only go into the request.\<close>
  "generate model srv prompt =
     (if \<not> ensure_model_loaded model srv then fallback_response model prompt
      else (case generate_reply srv of
              Raised e \<Rightarrow> fallback_response model prompt
            | Response status_code b \<Rightarrow>
                if status_code = 200 then
                  (case b of
                     Malformed \<Rightarrow> fallback_response model prompt
                   | Json result \<Rightarrow>
                       (let generated_text =
                              strip (case result of None \<Rightarrow> [] | Some t \<Rightarrow> t)
                        in if generated_text \<noteq> [] \<and> length generated_text > 50
                           then generated_text
                           else fallback_response model prompt))
                else fallback_response model prompt))"

definition is_available :: "string list reply \<Rightarrow> bool" where
  "is_available r = (case r of Raised e \<Rightarrow> False | Response status_code b \<Rightarrow> status_code = 200)"

section \<open>The Writer: generation through the engine\<close>

record writer =
  style_guide :: string
  characters_notes :: string
  world :: string
  llm_model :: string
  use_fallback :: bool

definition build_prompt :: "writer \<Rightarrow> string \<Rightarrow> string \<Rightarrow> string" where
  \<comment> \<open>The prompt assembled at the start of \<open>Writer._write_scene_ai\<close>.\<close>
  "build_prompt w brief scene_plan =
     (let context_parts =
            (if style_guide w \<noteq> [] then [(''GUIA DE ESTILO:'' @ [CHR 0x0A]) @ style_guide w] else []) @
            (if characters_notes w \<noteq> [] then [(''PERSONAGENS:'' @ [CHR 0x0A]) @ characters_notes w] else []) @
            (if world w \<noteq> [] then [(''MUNDO/CEN'' @ [CHR 0xC1] @ ''RIO:'' @ [CHR 0x0A]) @ world w] else []);
          context = (if context_parts \<noteq> [] then join [CHR 0x0A, CHR 0x0A] context_parts else [])
      in (''Voc'' @ [CHR 0xEA] @ '' '' @ [CHR 0xE9] @
       '' um escritor profissional especializado em narrativa liter'' @
       [CHR 0xE1] @ ''ria. Sua tarefa '' @ [CHR 0xE9] @
       '' escrever uma cena baseada no brief e plano fornecidos.'' @
       [CHR 0x0A, CHR 0x0A]) @
         context @ ([CHR 0x0A, CHR 0x0A] @ ''BRIEF DA CENA:'' @ [CHR 0x0A]) @ brief @ ([CHR 0x0A, CHR 0x0A] @ ''PLANO ESTRUTURAL:'' @ [CHR 0x0A]) @ scene_plan @
         ([CHR 0x0A, CHR 0x0A] @ ''INSTRU'' @ [CHR 0xC7, CHR 0xD5] @ ''ES:'' @
       [CHR 0x0A] @ ''- Escreva uma cena narrativa completa e envolvente'' @
       [CHR 0x0A] @ ''- Use terceira pessoa onisciente'' @ [CHR 0x0A] @
       ''- Inclua descri'' @ [CHR 0xE7, CHR 0xF5] @
       ''es sensoriais detalhadas'' @ [CHR 0x0A] @ ''- Desenvolva di'' @
       [CHR 0xE1] @ ''logos naturais e significativos'' @ [CHR 0x0A] @
       ''- Mantenha consist'' @ [CHR 0xEA] @
       ''ncia com o estilo e personagens'' @ [CHR 0x0A] @
       ''- A cena deve ter entre 300-600 palavras'' @ [CHR 0x0A] @
       ''- Use linguagem liter'' @ [CHR 0xE1] @ ''ria em portugu'' @
       [CHR 0xEA] @ ''s brasileiro'' @ [CHR 0x0A, CHR 0x0A] @ ''CENA:''))"

definition write_scene_ai :: "writer \<Rightarrow> service \<Rightarrow> string \<Rightarrow> string \<Rightarrow> string" where
  \<comment> \<open>The \<open>except\<close> branch of the source has no counterpart: \<open>generate\<close> returns a
      string on every path.\<close>
  "write_scene_ai w srv brief scene_plan =
     (let scene_content = strip (generate (llm_model w) srv (build_prompt w brief scene_plan))
      in if scene_content = [] \<or> length scene_content < 50
         then write_scene_fallback brief scene_plan
         else scene_content)"

definition write_scene :: "writer \<Rightarrow> service \<Rightarrow> string \<Rightarrow> string \<Rightarrow> string" where
  "write_scene w srv brief scene_plan =
     (if use_fallback w then write_scene_fallback brief scene_plan
      else write_scene_ai w srv brief scene_plan)"

section \<open>The Editor\<close>

definition corrections :: "(string \<times> string) list" where
  \<comment> \<open>The dictionary of \<open>_apply_style_corrections\<close>, in its insertion order.\<close>
  "corrections = [('' ,'', '',''), ('' .'', ''.''), (''  '', '' ''), ([CHR 0x0A, CHR 0x0A, CHR 0x0A], [CHR 0x0A, CHR 0x0A])]"

definition apply_style_corrections :: "string \<Rightarrow> string" where
  "apply_style_corrections content =
     foldl (\<lambda>edited (old, new). replace old new edited) content corrections"

definition enhance_paragraph :: "string \<Rightarrow> string" where
  \<comment> \<open>Both replacements start from \<open>paragraph\<close>, so the second assignment overwrites
      the first.\<close>
  "enhance_paragraph paragraph =
     (let enhanced = paragraph;
          enhanced =
            (if str_in ''chuva'' (lower paragraph) \<and> str_in ''tamborilava'' (lower paragraph)
             then replace ''tamborilava contra as grandes janelas''
                    (''tamborilava incessantemente contra as grandes janelas de vid'' @ ''ro'') paragraph
             else enhanced);
          enhanced =
            (if str_in ''Dr. Manoel'' paragraph \<and> str_in ''silhueta'' paragraph
             then replace ''a silhueta familiar de Dr. Manoel''
                    (''a silhueta inconfund'' @ [CHR 0xED] @ ''vel de Dr. Manoel'') paragraph
             else enhanced)
      in enhanced)"

definition enhance_prose :: "string \<Rightarrow> string" where
  "enhance_prose content =
     (let paragraphs = split [CHR 0x0A, CHR 0x0A] content;
          enhanced_paragraphs =
            map enhance_paragraph (filter (\<lambda>para. strip para \<noteq> []) paragraphs)
      in join [CHR 0x0A, CHR 0x0A] enhanced_paragraphs)"

function re_sub_dialogue :: "string \<Rightarrow> string" where
  \<comment> \<open>\<open>re.sub(r'([.!?])\n\n"', r'\1\n\n"', s)\<close>: each match, taken from the left,
      is replaced by its first group followed by two newlines and a quotation mark.\<close>
  "re_sub_dialogue [] = []"
| "re_sub_dialogue (c # cs) =
     (if c \<in> set ''.!?'' \<and> prefix [CHR 0x0A, CHR 0x0A, CHR 0x22] cs
      then c # [CHR 0x0A, CHR 0x0A, CHR 0x22] @ re_sub_dialogue (drop 3 cs)
      else c # re_sub_dialogue cs)"
  by pat_completeness auto
termination
  by (relation "measure length") auto

function re_sub_breaks :: "string \<Rightarrow> string" where
  \<comment> \<open>\<open>re.sub(r'\n\n\n+', '\n\n', s)\<close>: a match starts at three newlines and, being
      greedy, takes every newline that follows.\<close>
  "re_sub_breaks [] = []"
| "re_sub_breaks (c # cs) =
     (if prefix [CHR 0x0A, CHR 0x0A, CHR 0x0A] (c # cs)
      then [CHR 0x0A, CHR 0x0A] @ re_sub_breaks (dropWhile (\<lambda>x. x = CHR 0x0A) cs)
      else c # re_sub_breaks cs)"
  by pat_completeness auto
termination
  by (relation "measure length") (auto simp: less_Suc_eq_le length_dropWhile_le)

definition add_final_formatting :: "string \<Rightarrow> string" where
  "add_final_formatting content =
     (let formatted = content;
          formatted = re_sub_dialogue formatted;
          formatted = re_sub_breaks formatted
      in strip formatted)"

definition polish_line :: "string \<Rightarrow> string" where
  \<comment> \<open>The body of the loop of \<open>_final_polish\<close>: every branch appends the line itself.\<close>
  "polish_line line =
     (if strip line \<noteq> [] then
        (if prefix [CHR 0x22] (strip line) \<and> suffix [CHR 0x22] (strip line) then line else line)
      else line)"

definition final_polish :: "string \<Rightarrow> string" where
  "final_polish content =
     (let lines = split [CHR 0x0A] content;
          polished_lines = map polish_line lines;
          polished_content = join [CHR 0x0A] polished_lines
      in add_final_formatting polished_content)"

definition edit_scene :: "string \<Rightarrow> string \<Rightarrow> string \<Rightarrow> string" where
  "edit_scene scene_content brief scene_plan =
     (let edited_content = apply_style_corrections scene_content;
          edited_content = enhance_prose edited_content;
          edited_content = final_polish edited_content
      in edited_content)"

section \<open>Inputs of the scenarios\<close>

definition masp_brief :: string where
  \<comment> \<open>The brief of scenario 1; \<open>test_agents.py\<close> and the front ends use it as an example.\<close>
  "masp_brief = (''Escreva um encontro tenso no MASP entre Ivana e Dr. Manoel, '' @
       ''noite chuvosa.'')"

definition rain_silhouette_paragraph :: string where
  \<comment> \<open>A paragraph that meets both conditions of \<open>_enhance_paragraph\<close>.\<close>
  "rain_silhouette_paragraph =
     (''A chuva tamborilava contra as grandes janelas sobre a silhue'' @
       ''ta familiar de Dr. Manoel.'')"

definition plain_writer :: writer where
  \<comment> \<open>A Writer with no project notes, built while the service was reachable.\<close>
  "plain_writer =
     \<lparr> style_guide = [], characters_notes = [], world = [], llm_model = ''llama3.1'',
       use_fallback = False \<rparr>"

definition short_reply_service :: service where
  \<comment> \<open>The model is listed and warms up; the generation request succeeds with a text of
      ten code points.\<close>
  "short_reply_service =
     \<lparr> tags_reply = Response 200 (Json [''llama3.1:latest'']),
       warm_up_reply = Response 200 (Json (Some (''Ol'' @ [CHR 0xE1] @ ''!''))),
       generate_reply = Response 200 (Json (Some (''Ol'' @ [CHR 0xE1] @ '', mundo''))) \<rparr>"

section \<open>Facts about the string operations\<close>

lemma dropWhile_hd_keeps: "s \<noteq> [] \<Longrightarrow> \<not> P (hd s) \<Longrightarrow> dropWhile P s = s"
  by (cases s) simp_all

lemma strip_unchanged:
  assumes "s \<noteq> []" and "\<not> is_space (hd s)" and "\<not> is_space (last s)"
  shows "strip s = s"
proof -
  have "dropWhile is_space s = s"
    using assms(1,2) by (rule dropWhile_hd_keeps)
  moreover have "dropWhile is_space (rev s) = rev s"
    using assms(1,3) by (intro dropWhile_hd_keeps) (simp_all add: hd_rev)
  ultimately show ?thesis by (simp add: strip_def)
qed

lemma hd_join: "x \<noteq> [] \<Longrightarrow> hd (join sep (x # xs)) = hd x"
  by (cases xs) simp_all

lemma str_in_sublist: "str_in p s \<longleftrightarrow> sublist p s"
  by (induction s) (simp_all add: sublist_Cons_right)

lemma sublist_strip: "sublist (strip s) s"
proof -
  have "sublist (rev (dropWhile is_space (rev (dropWhile is_space s)))) (dropWhile is_space s)"
    by (simp add: sublist_rev_left)
  moreover have "sublist (dropWhile is_space s) s"
    by simp
  ultimately show ?thesis
    unfolding strip_def by (rule sublist_order.order.trans)
qed

lemma str_in_strip: "str_in p (strip s) \<Longrightarrow> str_in p s"
  using sublist_strip [of s] by (auto simp: str_in_sublist intro: sublist_order.order.trans)

lemma last_dropWhile_keeps: "dropWhile P xs \<noteq> [] \<Longrightarrow> last (dropWhile P xs) = last xs"
proof -
  assume "dropWhile P xs \<noteq> []"
  then have "last (takeWhile P xs @ dropWhile P xs) = last (dropWhile P xs)"
    by (rule last_appendR)
  then show ?thesis by simp
qed

lemma strip_margins:
  assumes "strip s \<noteq> []"
  shows "\<not> is_space (hd (strip s))" and "\<not> is_space (last (strip s))"
proof -
  let ?t = "dropWhile is_space s"
  let ?u = "dropWhile is_space (rev ?t)"
  from assms have u: "?u \<noteq> []"
    by (simp add: strip_def)
  have t: "?t \<noteq> []"
  proof
    assume a: "?t = []"
    have "?u = []" unfolding a by simp
    with u show False by contradiction
  qed
  have "hd (strip s) = last ?u"
    using u by (simp add: strip_def hd_rev)
  also have "\<dots> = last (rev ?t)"
    using u by (rule last_dropWhile_keeps)
  also have "\<dots> = hd ?t"
    using t by (simp add: last_rev)
  finally show "\<not> is_space (hd (strip s))"
    using hd_dropWhile [OF t] by simp
  have "last (strip s) = hd ?u"
    using u by (simp add: strip_def last_rev)
  then show "\<not> is_space (last (strip s))"
    using hd_dropWhile [OF u] by simp
qed

lemma strip_strip: "strip (strip s) = strip s"
proof (cases "strip s = []")
  case True
  show ?thesis unfolding True by (simp add: strip_def)
next
  case False
  from False strip_margins [OF False] show ?thesis
    by (rule strip_unchanged)
qed

lemma join_Cons_more: "zs \<noteq> [] \<Longrightarrow> join sep (x # zs) = x @ sep @ join sep zs"
  by (cases zs) simp_all

lemma join_append_more:
  "xs \<noteq> [] \<Longrightarrow> ys \<noteq> [] \<Longrightarrow> join sep (xs @ ys) = join sep xs @ sep @ join sep ys"
proof (induction xs)
  case Nil
  then show ?case by simp
next
  case (Cons x xs)
  show ?case
  proof (cases "xs = []")
    case True
    with Cons.prems show ?thesis
      by (simp add: join_Cons_more)
  next
    case False
    with Cons show ?thesis
      by (simp add: join_Cons_more)
  qed
qed

lemma str_in_middle: "str_in p (pre @ p @ post)"
  by (simp add: str_in_sublist)

section \<open>Properties of the Planner\<close>

lemma plan_lines_not_empty:
  "setting_lines e \<noteq> []" "character_lines e \<noteq> []" "progression_lines e \<noteq> []"
  "technical_lines e \<noteq> []"
  by (simp_all add: setting_lines_def character_lines_def progression_lines_def
      technical_lines_def tense_rain_outline_def emotional_outline_def action_outline_def
      generic_outline_def)

text \<open>
  The text of the plan, block by block: the joined lines of each block stand between
  the headings, in the order in which \<open>_create_scene_structure\<close> appends them.
\<close>

lemma plan_scene_blocks:
  "plan_scene brief =
     (''## ESTRUTURA DA CENA'' @ [CHR 0x0A, CHR 0x0A] @ ''**Brief Original:** '') @ brief @
     ([CHR 0x0A, CHR 0x0A] @ ''### 1. AMBIENTA'' @ [CHR 0xC7, CHR 0xC3] @
       ''O'' @ [CHR 0x0A]) @ join [CHR 0x0A] (setting_lines (extract_elements brief)) @
     ([CHR 0x0A, CHR 0x0A] @ ''### 2. PERSONAGENS'' @ [CHR 0x0A]) @ join [CHR 0x0A] (character_lines (extract_elements brief)) @
     ([CHR 0x0A, CHR 0x0A] @ ''### 3. PROGRESS'' @ [CHR 0xC3] @
       ''O NARRATIVA'' @ [CHR 0x0A]) @ join [CHR 0x0A] (progression_lines (extract_elements brief)) @
     ([CHR 0x0A, CHR 0x0A] @ ''### 4. ELEMENTOS T'' @ [CHR 0xC9] @ ''CNICOS'' @
       [CHR 0x0A]) @ join [CHR 0x0A] (technical_lines (extract_elements brief))"
  by (simp add: plan_scene_def create_scene_structure_def plan_parts_def join_Cons_more
      join_append_more plan_lines_not_empty)

text \<open>
  C3. For every brief, the plan that the Planner returns holds, between the heading of
  the narrative progression and the heading of the technical notes, exactly one of four
  fixed six-step outlines, chosen by priority: the tense-and-rain outline exactly when
  the mood is \<open>tenso\<close> and the weather is \<open>chuva\<close>; else the emotional outline when the
  mood is \<open>emotivo\<close>; else the action outline when the mood is the action mood; else
  the generic outline. In particular the mood \<open>suspense\<close>, and the mood \<open>tenso\<close>
  without rain, give the generic outline. The four outlines differ from each other,
  so the selection is total and unambiguous.
\<close>

theorem progression_selection:
  "(let e = extract_elements brief; p = progression_lines e in
      (\<exists>pre post. plan_scene brief =
         pre @ ([CHR 0x0A, CHR 0x0A] @ ''### 3. PROGRESS'' @ [CHR 0xC3] @
       ''O NARRATIVA'' @ [CHR 0x0A]) @
         join [CHR 0x0A]
           (if mood e = ''tenso'' \<and> weather e = ''chuva'' then tense_rain_outline
            else if mood e = ''emotivo'' then emotional_outline
            else if mood e = (''a'' @ [CHR 0xE7, CHR 0xE3] @ ''o'') then action_outline
            else generic_outline) @
         ([CHR 0x0A, CHR 0x0A] @ ''### 4. ELEMENTOS T'' @ [CHR 0xC9] @ ''CNICOS'' @
       [CHR 0x0A]) @ post) \<and>
      (mood e = ''tenso'' \<and> weather e = ''chuva'' \<longrightarrow> p = tense_rain_outline) \<and>
      (\<not> (mood e = ''tenso'' \<and> weather e = ''chuva'') \<and> mood e = ''emotivo''
         \<longrightarrow> p = emotional_outline) \<and>
      (\<not> (mood e = ''tenso'' \<and> weather e = ''chuva'') \<and> mood e \<noteq> ''emotivo'' \<and> mood e = (''a'' @ [CHR 0xE7, CHR 0xE3] @ ''o'')
         \<longrightarrow> p = action_outline) \<and>
      (\<not> (mood e = ''tenso'' \<and> weather e = ''chuva'') \<and> mood e \<noteq> ''emotivo'' \<and> mood e \<noteq> (''a'' @ [CHR 0xE7, CHR 0xE3] @ ''o'')
         \<longrightarrow> p = generic_outline) \<and>
      (p = tense_rain_outline \<longleftrightarrow> mood e = ''tenso'' \<and> weather e = ''chuva'') \<and>
      (mood e = ''suspense'' \<longrightarrow> p = generic_outline) \<and>
      (mood e = ''tenso'' \<and> weather e \<noteq> ''chuva'' \<longrightarrow> p = generic_outline) \<and>
      p \<in> set [tense_rain_outline, emotional_outline, action_outline, generic_outline] \<and>
      length p = 6) \<and>
   distinct [tense_rain_outline, emotional_outline, action_outline, generic_outline]"
proof -
  let ?e = "extract_elements brief"
  let ?sel = "if mood ?e = ''tenso'' \<and> weather ?e = ''chuva'' then tense_rain_outline
            else if mood ?e = ''emotivo'' then emotional_outline
            else if mood ?e = (''a'' @ [CHR 0xE7, CHR 0xE3] @ ''o'') then action_outline
            else generic_outline"
  have sel: "progression_lines ?e = ?sel"
    by (simp add: progression_lines_def)
  have "plan_scene brief =
      ((''## ESTRUTURA DA CENA'' @ [CHR 0x0A, CHR 0x0A] @ ''**Brief Original:** '') @ brief @
       ([CHR 0x0A, CHR 0x0A] @ ''### 1. AMBIENTA'' @ [CHR 0xC7, CHR 0xC3] @
       ''O'' @ [CHR 0x0A]) @ join [CHR 0x0A] (setting_lines ?e) @
       ([CHR 0x0A, CHR 0x0A] @ ''### 2. PERSONAGENS'' @ [CHR 0x0A]) @ join [CHR 0x0A] (character_lines ?e)) @
      ([CHR 0x0A, CHR 0x0A] @ ''### 3. PROGRESS'' @ [CHR 0xC3] @
       ''O NARRATIVA'' @ [CHR 0x0A]) @ join [CHR 0x0A] ?sel @
      ([CHR 0x0A, CHR 0x0A] @ ''### 4. ELEMENTOS T'' @ [CHR 0xC9] @ ''CNICOS'' @
       [CHR 0x0A]) @ join [CHR 0x0A] (technical_lines ?e)"
    unfolding sel [symmetric] by (subst plan_scene_blocks) simp
  then have block: "\<exists>pre post. plan_scene brief =
      pre @ ([CHR 0x0A, CHR 0x0A] @ ''### 3. PROGRESS'' @ [CHR 0xC3] @
       ''O NARRATIVA'' @ [CHR 0x0A]) @ join [CHR 0x0A] ?sel @
      ([CHR 0x0A, CHR 0x0A] @ ''### 4. ELEMENTOS T'' @ [CHR 0xC9] @ ''CNICOS'' @
       [CHR 0x0A]) @ post"
    by blast
  have rest: "(mood ?e = ''tenso'' \<and> weather ?e = ''chuva'' \<longrightarrow>
        progression_lines ?e = tense_rain_outline) \<and>
      (\<not> (mood ?e = ''tenso'' \<and> weather ?e = ''chuva'') \<and> mood ?e = ''emotivo''
         \<longrightarrow> progression_lines ?e = emotional_outline) \<and>
      (\<not> (mood ?e = ''tenso'' \<and> weather ?e = ''chuva'') \<and> mood ?e \<noteq> ''emotivo'' \<and> mood ?e = (''a'' @ [CHR 0xE7, CHR 0xE3] @ ''o'')
         \<longrightarrow> progression_lines ?e = action_outline) \<and>
      (\<not> (mood ?e = ''tenso'' \<and> weather ?e = ''chuva'') \<and> mood ?e \<noteq> ''emotivo'' \<and> mood ?e \<noteq> (''a'' @ [CHR 0xE7, CHR 0xE3] @ ''o'')
         \<longrightarrow> progression_lines ?e = generic_outline) \<and>
      (progression_lines ?e = tense_rain_outline \<longleftrightarrow> mood ?e = ''tenso'' \<and> weather ?e = ''chuva'') \<and>
      (mood ?e = ''suspense'' \<longrightarrow> progression_lines ?e = generic_outline) \<and>
      (mood ?e = ''tenso'' \<and> weather ?e \<noteq> ''chuva'' \<longrightarrow> progression_lines ?e = generic_outline) \<and>
      progression_lines ?e \<in>
        set [tense_rain_outline, emotional_outline, action_outline, generic_outline] \<and>
      length (progression_lines ?e) = 6"
    by (simp add: progression_lines_def tense_rain_outline_def emotional_outline_def
        action_outline_def generic_outline_def)
  have dist: "distinct [tense_rain_outline, emotional_outline, action_outline, generic_outline]"
    by (simp add: tense_rain_outline_def emotional_outline_def action_outline_def
        generic_outline_def)
  from block rest dist show ?thesis
    unfolding Let_def by (intro conjI) blast+
qed

theorem progression_selection_witness:
  "mood (extract_elements ''Um encontro tenso, noite chuvosa'') = ''tenso'' \<and>
   weather (extract_elements ''Um encontro tenso, noite chuvosa'') = ''chuva'' \<and>
   progression_lines (extract_elements ''Um encontro tenso, noite chuvosa'') = tense_rain_outline \<and>
   str_in (([CHR 0x0A, CHR 0x0A] @ ''### 3. PROGRESS'' @ [CHR 0xC3] @
       ''O NARRATIVA'' @ [CHR 0x0A]) @ join [CHR 0x0A] tense_rain_outline @
           ([CHR 0x0A, CHR 0x0A] @ ''### 4. ELEMENTOS T'' @ [CHR 0xC9] @ ''CNICOS'' @
       [CHR 0x0A]))
     (plan_scene ''Um encontro tenso, noite chuvosa'')"
proof -
  have m: "mood (extract_elements ''Um encontro tenso, noite chuvosa'') = ''tenso''"
    by code_simp
  have w: "weather (extract_elements ''Um encontro tenso, noite chuvosa'') = ''chuva''"
    by code_simp
  note t = progression_selection [of "''Um encontro tenso, noite chuvosa''", unfolded Let_def]
  from t m w
  have p: "progression_lines (extract_elements ''Um encontro tenso, noite chuvosa'') = tense_rain_outline"
    by blast
  from t obtain pre post where "plan_scene ''Um encontro tenso, noite chuvosa'' =
      pre @ ([CHR 0x0A, CHR 0x0A] @ ''### 3. PROGRESS'' @ [CHR 0xC3] @
       ''O NARRATIVA'' @ [CHR 0x0A]) @
      join [CHR 0x0A]
        (if mood (extract_elements ''Um encontro tenso, noite chuvosa'') = ''tenso'' \<and>
            weather (extract_elements ''Um encontro tenso, noite chuvosa'') = ''chuva''
         then tense_rain_outline
         else if mood (extract_elements ''Um encontro tenso, noite chuvosa'') = ''emotivo''
           then emotional_outline
         else if mood (extract_elements ''Um encontro tenso, noite chuvosa'') = (''a'' @ [CHR 0xE7, CHR 0xE3] @ ''o'')
           then action_outline
         else generic_outline) @
      ([CHR 0x0A, CHR 0x0A] @ ''### 4. ELEMENTOS T'' @ [CHR 0xC9] @ ''CNICOS'' @
       [CHR 0x0A]) @ post"
    by blast
  then have "plan_scene ''Um encontro tenso, noite chuvosa'' =
      pre @ (([CHR 0x0A, CHR 0x0A] @ ''### 3. PROGRESS'' @ [CHR 0xC3] @
       ''O NARRATIVA'' @ [CHR 0x0A]) @ join [CHR 0x0A] tense_rain_outline @
             ([CHR 0x0A, CHR 0x0A] @ ''### 4. ELEMENTOS T'' @ [CHR 0xC9] @ ''CNICOS'' @
       [CHR 0x0A])) @ post"
    by (simp only: m w simp_thms if_True append_assoc)
  then have "str_in (([CHR 0x0A, CHR 0x0A] @ ''### 3. PROGRESS'' @ [CHR 0xC3] @
       ''O NARRATIVA'' @ [CHR 0x0A]) @ join [CHR 0x0A] tense_rain_outline @
           ([CHR 0x0A, CHR 0x0A] @ ''### 4. ELEMENTOS T'' @ [CHR 0xC9] @ ''CNICOS'' @
       [CHR 0x0A]))
     (plan_scene ''Um encontro tenso, noite chuvosa'')"
    by (simp only: str_in_middle)
  with m w p show ?thesis by blast
qed

text \<open>
  C4, as the code has it. For every brief, the plan that the Planner returns holds,
  between the heading of the setting and the heading of the characters, one line each
  for local, period, weather and mood, carrying the extracted value or, when the
  dimension is absent, its placeholder. A movement line follows exactly when a movement
  feature was extracted, and carries it; when none was extracted the block has no
  fifth line.
\<close>

theorem setting_block_lines:
  "(let e = extract_elements brief in
      (\<exists>post. plan_scene brief =
         (''## ESTRUTURA DA CENA'' @ [CHR 0x0A, CHR 0x0A] @ ''**Brief Original:** '') @ brief @
         ([CHR 0x0A, CHR 0x0A] @ ''### 1. AMBIENTA'' @ [CHR 0xC7, CHR 0xC3] @
       ''O'' @ [CHR 0x0A]) @
         join [CHR 0x0A]
           ([''- **Local**: '' @ (if setting e = [] then ''Local a definir'' else setting e),
             (''- **Per'' @ [CHR 0xED] @ ''odo**: '') @
               (if time_period e = [] then (''Per'' @ [CHR 0xED] @ ''odo a definir'') else time_period e),
             ''- **Clima**: '' @ (if weather e = [] then ''Clima neutro'' else weather e),
             ''- **Atmosfera**: '' @ (if mood e = [] then ''Atmosfera neutra'' else mood e)] @
            (if action e = [] then [] else [''- **Movimento**: '' @ action e])) @
         ([CHR 0x0A, CHR 0x0A] @ ''### 2. PERSONAGENS'' @ [CHR 0x0A]) @ post) \<and>
      take 4 (setting_lines e) =
        [''- **Local**: '' @ (if setting e = [] then ''Local a definir'' else setting e),
         (''- **Per'' @ [CHR 0xED] @ ''odo**: '') @ (if time_period e = [] then (''Per'' @ [CHR 0xED] @ ''odo a definir'') else time_period e),
         ''- **Clima**: '' @ (if weather e = [] then ''Clima neutro'' else weather e),
         ''- **Atmosfera**: '' @ (if mood e = [] then ''Atmosfera neutra'' else mood e)] \<and>
      drop 4 (setting_lines e) =
        (if action e = [] then [] else [''- **Movimento**: '' @ action e]))"
proof -
  let ?e = "extract_elements brief"
  let ?lines = "[''- **Local**: '' @ (if setting ?e = [] then ''Local a definir'' else setting ?e),
             (''- **Per'' @ [CHR 0xED] @ ''odo**: '') @
               (if time_period ?e = [] then (''Per'' @ [CHR 0xED] @ ''odo a definir'') else time_period ?e),
             ''- **Clima**: '' @ (if weather ?e = [] then ''Clima neutro'' else weather ?e),
             ''- **Atmosfera**: '' @ (if mood ?e = [] then ''Atmosfera neutra'' else mood ?e)] @
            (if action ?e = [] then [] else [''- **Movimento**: '' @ action ?e])"
  have lines: "setting_lines ?e = ?lines"
    by (simp add: setting_lines_def py_or_def)
  have "plan_scene brief =
      (''## ESTRUTURA DA CENA'' @ [CHR 0x0A, CHR 0x0A] @ ''**Brief Original:** '') @ brief @
      ([CHR 0x0A, CHR 0x0A] @ ''### 1. AMBIENTA'' @ [CHR 0xC7, CHR 0xC3] @
       ''O'' @ [CHR 0x0A]) @ join [CHR 0x0A] ?lines @
      ([CHR 0x0A, CHR 0x0A] @ ''### 2. PERSONAGENS'' @ [CHR 0x0A]) @
      (join [CHR 0x0A] (character_lines ?e) @
       ([CHR 0x0A, CHR 0x0A] @ ''### 3. PROGRESS'' @ [CHR 0xC3] @
       ''O NARRATIVA'' @ [CHR 0x0A]) @ join [CHR 0x0A] (progression_lines ?e) @
       ([CHR 0x0A, CHR 0x0A] @ ''### 4. ELEMENTOS T'' @ [CHR 0xC9] @ ''CNICOS'' @
       [CHR 0x0A]) @ join [CHR 0x0A] (technical_lines ?e))"
    unfolding lines [symmetric] by (subst plan_scene_blocks) simp
  then have block: "\<exists>post. plan_scene brief =
      (''## ESTRUTURA DA CENA'' @ [CHR 0x0A, CHR 0x0A] @ ''**Brief Original:** '') @ brief @
      ([CHR 0x0A, CHR 0x0A] @ ''### 1. AMBIENTA'' @ [CHR 0xC7, CHR 0xC3] @
       ''O'' @ [CHR 0x0A]) @ join [CHR 0x0A] ?lines @
      ([CHR 0x0A, CHR 0x0A] @ ''### 2. PERSONAGENS'' @ [CHR 0x0A]) @ post"
    by blast
  have rest: "take 4 (setting_lines ?e) =
        [''- **Local**: '' @ (if setting ?e = [] then ''Local a definir'' else setting ?e),
         (''- **Per'' @ [CHR 0xED] @ ''odo**: '') @ (if time_period ?e = [] then (''Per'' @ [CHR 0xED] @ ''odo a definir'') else time_period ?e),
         ''- **Clima**: '' @ (if weather ?e = [] then ''Clima neutro'' else weather ?e),
         ''- **Atmosfera**: '' @ (if mood ?e = [] then ''Atmosfera neutra'' else mood ?e)] \<and>
      drop 4 (setting_lines ?e) =
        (if action ?e = [] then [] else [''- **Movimento**: '' @ action ?e])"
    by (simp add: setting_lines_def py_or_def)
  from block rest show ?thesis
    unfolding Let_def by (intro conjI) blast+
qed

theorem setting_block_lines_witness:
  "action (extract_elements ''metro lotado'') \<noteq> [] \<and>
   drop 4 (setting_lines (extract_elements ''metro lotado'')) =
     [''- **Movimento**: movimento intenso''] \<and>
   prefix (''## ESTRUTURA DA CENA'' @ [CHR 0x0A, CHR 0x0A] @
       ''**Brief Original:** metro lotado'' @ [CHR 0x0A, CHR 0x0A] @
       ''### 1. AMBIENTA'' @ [CHR 0xC7, CHR 0xC3] @ ''O'' @ [CHR 0x0A] @
       ''- **Local**: Esta'' @ [CHR 0xE7, CHR 0xE3] @ ''o de metr'' @
       [CHR 0xF4, CHR 0x0A] @ ''- **Per'' @ [CHR 0xED] @ ''odo**: Per'' @
       [CHR 0xED] @ ''odo a definir'' @ [CHR 0x0A] @
       ''- **Clima**: Clima neutro'' @ [CHR 0x0A] @
       ''- **Atmosfera**: Atmosfera neutra'' @ [CHR 0x0A] @
       ''- **Movimento**: movimento intenso'' @ [CHR 0x0A, CHR 0x0A] @
       ''### 2. PERSONAGENS'' @ [CHR 0x0A])
     (plan_scene ''metro lotado'')"
proof -
  have e: "extract_elements ''metro lotado'' =
      \<lparr> characters = [], setting = (''Esta'' @ [CHR 0xE7, CHR 0xE3] @ ''o de metr'' @ [CHR 0xF4]), mood = [], conflict_type = [],
        time_period = [], weather = [], action = ''movimento intenso'' \<rparr>"
    by code_simp
  note t = setting_block_lines [of "''metro lotado''", unfolded Let_def]
  from t have d: "drop 4 (setting_lines (extract_elements ''metro lotado'')) =
      [''- **Movimento**: movimento intenso'']"
    by (simp add: e)
  from t obtain post where "plan_scene ''metro lotado'' =
      (''## ESTRUTURA DA CENA'' @ [CHR 0x0A, CHR 0x0A] @ ''**Brief Original:** '') @ ''metro lotado'' @
      ([CHR 0x0A, CHR 0x0A] @ ''### 1. AMBIENTA'' @ [CHR 0xC7, CHR 0xC3] @
       ''O'' @ [CHR 0x0A]) @
      join [CHR 0x0A]
        ([''- **Local**: '' @
            (if setting (extract_elements ''metro lotado'') = [] then ''Local a definir''
             else setting (extract_elements ''metro lotado'')),
          (''- **Per'' @ [CHR 0xED] @ ''odo**: '') @
            (if time_period (extract_elements ''metro lotado'') = [] then (''Per'' @ [CHR 0xED] @ ''odo a definir'')
             else time_period (extract_elements ''metro lotado'')),
          ''- **Clima**: '' @
            (if weather (extract_elements ''metro lotado'') = [] then ''Clima neutro''
             else weather (extract_elements ''metro lotado'')),
          ''- **Atmosfera**: '' @
            (if mood (extract_elements ''metro lotado'') = [] then ''Atmosfera neutra''
             else mood (extract_elements ''metro lotado''))] @
         (if action (extract_elements ''metro lotado'') = [] then []
          else [''- **Movimento**: '' @ action (extract_elements ''metro lotado'')])) @
      ([CHR 0x0A, CHR 0x0A] @ ''### 2. PERSONAGENS'' @ [CHR 0x0A]) @ post"
    by blast
  then have "prefix (''## ESTRUTURA DA CENA'' @ [CHR 0x0A, CHR 0x0A] @
       ''**Brief Original:** metro lotado'' @ [CHR 0x0A, CHR 0x0A] @
       ''### 1. AMBIENTA'' @ [CHR 0xC7, CHR 0xC3] @ ''O'' @ [CHR 0x0A] @
       ''- **Local**: Esta'' @ [CHR 0xE7, CHR 0xE3] @ ''o de metr'' @
       [CHR 0xF4, CHR 0x0A] @ ''- **Per'' @ [CHR 0xED] @ ''odo**: Per'' @
       [CHR 0xED] @ ''odo a definir'' @ [CHR 0x0A] @
       ''- **Clima**: Clima neutro'' @ [CHR 0x0A] @
       ''- **Atmosfera**: Atmosfera neutra'' @ [CHR 0x0A] @
       ''- **Movimento**: movimento intenso'' @ [CHR 0x0A, CHR 0x0A] @
       ''### 2. PERSONAGENS'' @ [CHR 0x0A])
     (plan_scene ''metro lotado'')"
    by (simp add: e)
  with d show ?thesis
    by (simp add: e)
qed

text \<open>
  C4, as the specification states it, fails: for the empty brief no movement feature is
  extracted, the setting block has four lines, and neither the block nor the whole plan
  mentions the movement dimension.
\<close>

theorem movement_line_counterexample:
  "action (extract_elements []) = [] \<and>
   setting_lines (extract_elements []) =
     [''- **Local**: Local a definir'', (''- **Per'' @ [CHR 0xED] @ ''odo**: Per'' @ [CHR 0xED] @ ''odo a definir''),
      ''- **Clima**: Clima neutro'', ''- **Atmosfera**: Atmosfera neutra''] \<and>
   \<not> str_in ''Movimento'' (plan_scene [])"
  by code_simp

text \<open>
  C9. Father and daughter are detected only jointly, in the Planner and in the Writer:
  a brief whose lower-cased text contains \<open>pai\<close> but not \<open>filha\<close>, or \<open>filha\<close> but not
  \<open>pai\<close>, adds neither character, and both are added exactly when both words occur.
\<close>

theorem father_daughter_jointly:
  "(let l = lower brief; cp = set (characters (extract_elements brief));
        cw = set (characters_w (analyze_brief brief)) in
      (str_in ''pai'' l \<and> \<not> str_in ''filha'' l \<longrightarrow>
         ''Pai'' \<notin> cp \<and> ''Filha'' \<notin> cp \<and> ''pai'' \<notin> cw \<and> ''filha'' \<notin> cw) \<and>
      (str_in ''filha'' l \<and> \<not> str_in ''pai'' l \<longrightarrow>
         ''Pai'' \<notin> cp \<and> ''Filha'' \<notin> cp \<and> ''pai'' \<notin> cw \<and> ''filha'' \<notin> cw) \<and>
      (''Pai'' \<in> cp \<longleftrightarrow> str_in ''pai'' l \<and> str_in ''filha'' l) \<and>
      (''Filha'' \<in> cp \<longleftrightarrow> str_in ''pai'' l \<and> str_in ''filha'' l) \<and>
      (''pai'' \<in> cw \<longleftrightarrow> str_in ''pai'' l \<and> str_in ''filha'' l) \<and>
      (''filha'' \<in> cw \<longleftrightarrow> str_in ''pai'' l \<and> str_in ''filha'' l))"
  by (simp add: Let_def extract_elements_def analyze_brief_def)

theorem father_daughter_jointly_witness:
  "str_in ''pai'' (lower ''O Pai espera'') \<and> \<not> str_in ''filha'' (lower ''O Pai espera'') \<and>
   ''Pai'' \<notin> set (characters (extract_elements ''O Pai espera'')) \<and>
   ''pai'' \<notin> set (characters_w (analyze_brief ''O Pai espera''))"
proof -
  have p: "str_in ''pai'' (lower ''O Pai espera'')" by code_simp
  have f: "\<not> str_in ''filha'' (lower ''O Pai espera'')" by code_simp
  from father_daughter_jointly [of "''O Pai espera''"] p f show ?thesis
    unfolding Let_def by blast
qed

section \<open>Properties of the fallback generator\<close>

text \<open>
  C7. The fallback assembly depends on the extracted features alone: the plan text and
  the brief text passed alongside do not enter the result, so two calls whose briefs
  give equal features return the same text, whatever the plans and briefs are.
\<close>

theorem fallback_depends_on_features_only:
  "generate_scene_content elements plan_a brief_a = generate_scene_content elements plan_b brief_b \<and>
   (analyze_brief brief_a = analyze_brief brief_b \<longrightarrow>
      write_scene_fallback brief_a plan_a = write_scene_fallback brief_b plan_b)"
  by (simp add: generate_scene_content_def write_scene_fallback_def Let_def)

theorem fallback_depends_on_features_only_witness:
  "analyze_brief ''Uma cena no MASP'' = analyze_brief ''masp!'' \<and>
   write_scene_fallback ''Uma cena no MASP'' ''plano A'' = write_scene_fallback ''masp!'' ''plano B''"
proof -
  have e: "analyze_brief ''Uma cena no MASP'' = analyze_brief ''masp!''"
    by code_simp
  from fallback_depends_on_features_only
         [where brief_a = "''Uma cena no MASP''" and brief_b = "''masp!''"
            and plan_a = "''plano A''" and plan_b = "''plano B''"] e
  show ?thesis by blast
qed

text \<open>
  C2. The brief of scenario 1 yields the characters Ivana and Dr. Manoel, the setting
  MASP, the mood \<open>tenso\<close>, the period \<open>noite\<close>, the weather \<open>chuva\<close> and the encounter
  as action type, in the Planner's and in the Writer's extraction. The Planner selects
  the tense-and-rain outline: the plan it returns holds the six steps of that outline
  between the heading of the narrative progression and the heading of the technical
  notes. The fallback generator selects the MASP-rain opening, the
  six-line exchange of Ivana and Dr. Manoel, and the rain closing.
\<close>

theorem scenario_masp_rain:
  "extract_elements masp_brief =
     \<lparr> characters = [''Ivana'', ''Dr. Manoel''],
       setting = (''MASP - Museu de Arte de S'' @ [CHR 0xE3] @ ''o Paulo''),
       mood = ''tenso'',
       conflict_type = ''encontro/confronto'',
       time_period = ''noite'',
       weather = ''chuva'',
       action = [] \<rparr> \<and>
   analyze_brief masp_brief =
     \<lparr> setting_w = (''MASP (Museu de Arte de S'' @ [CHR 0xE3] @ ''o Paulo)''),
       characters_w = [''Ivana'', ''Dr. Manoel''],
       mood_w = ''tenso'',
       time_w = ''noite'',
       weather_w = ''chuva'',
       action_w = ''encontro'' \<rparr> \<and>
   progression_lines (extract_elements masp_brief) = tense_rain_outline \<and>
   str_in (join [CHR 0x0A] tense_rain_outline) (plan_scene masp_brief) \<and>
   str_in (([CHR 0x0A, CHR 0x0A] @ ''### 3. PROGRESS'' @ [CHR 0xC3] @
       ''O NARRATIVA'' @ [CHR 0x0A]) @ join [CHR 0x0A] tense_rain_outline @
           ([CHR 0x0A, CHR 0x0A] @ ''### 4. ELEMENTOS T'' @ [CHR 0xC9] @ ''CNICOS'' @
       [CHR 0x0A]))
     (plan_scene masp_brief) \<and>
   atmospheric_opening
     (analyze_brief masp_brief) =
     [masp_rain_opening] \<and>
   character_interactions
     (analyze_brief masp_brief) =
     ivana_manoel_exchange \<and>
   length ivana_manoel_exchange = 6 \<and>
   scene_closing
     (analyze_brief masp_brief) =
     [rain_closing] \<and>
   write_scene_fallback masp_brief
     (plan_scene masp_brief) =
     join [CHR 0x0A] ([masp_rain_opening] @ ivana_manoel_exchange @ [rain_closing])"
  by code_simp

text \<open>
  C8. For the empty brief both extractions leave every field empty, and the Planner,
  the fallback generator and the Editor (run on the generator's text) each return a
  non-empty text. No function of the three stages has a failing branch.
\<close>

theorem empty_brief_pipeline:
  "extract_elements [] =
     \<lparr> characters = [], setting = [], mood = [], conflict_type = [], time_period = [],
       weather = [], action = [] \<rparr> \<and>
   analyze_brief [] =
     \<lparr> setting_w = [], characters_w = [], mood_w = [], time_w = [], weather_w = [],
       action_w = [] \<rparr> \<and>
   plan_scene [] \<noteq> [] \<and>
   write_scene_fallback [] (plan_scene []) \<noteq> [] \<and>
   write_scene_fallback [] (plan_scene []) =
     join [CHR 0x0A] [generic_opening, generic_interaction, generic_closing] \<and>
   edit_scene (write_scene_fallback [] (plan_scene [])) [] (plan_scene []) \<noteq> [] \<and>
   edit_scene (write_scene_fallback [] (plan_scene [])) [] (plan_scene []) =
     write_scene_fallback [] (plan_scene [])"
  by code_simp

section \<open>Properties of the Editor\<close>

text \<open>
  C10. When a paragraph meets both conditions of the enhancement pass (it contains
  \<open>chuva\<close> and \<open>tamborilava\<close> in any case, and \<open>Dr. Manoel\<close> and \<open>silhueta\<close>), the
  result is the original paragraph with the silhouette replacement alone: the rain
  enhancement is overwritten, not composed.
\<close>

theorem both_gates_keep_silhouette_only:
  "str_in ''chuva'' (lower paragraph) \<and> str_in ''tamborilava'' (lower paragraph) \<and>
   str_in ''Dr. Manoel'' paragraph \<and> str_in ''silhueta'' paragraph \<Longrightarrow>
   enhance_paragraph paragraph =
     replace ''a silhueta familiar de Dr. Manoel'' (''a silhueta inconfund'' @ [CHR 0xED] @ ''vel de Dr. Manoel'') paragraph"
  by (simp add: enhance_paragraph_def Let_def)

theorem both_gates_keep_silhouette_only_witness:
  "str_in ''chuva'' (lower rain_silhouette_paragraph) \<and>
   str_in ''tamborilava'' (lower rain_silhouette_paragraph) \<and>
   str_in ''Dr. Manoel'' rain_silhouette_paragraph \<and>
   str_in ''silhueta'' rain_silhouette_paragraph \<and>
   enhance_paragraph rain_silhouette_paragraph =
     (''A chuva tamborilava contra as grandes janelas sobre a silhue'' @
       ''ta inconfund'' @ [CHR 0xED] @ ''vel de Dr. Manoel.'')"
proof -
  have g: "str_in ''chuva'' (lower rain_silhouette_paragraph) \<and>
     str_in ''tamborilava'' (lower rain_silhouette_paragraph) \<and>
     str_in ''Dr. Manoel'' rain_silhouette_paragraph \<and>
     str_in ''silhueta'' rain_silhouette_paragraph"
    by code_simp
  have r: "replace ''a silhueta familiar de Dr. Manoel'' (''a silhueta inconfund'' @ [CHR 0xED] @ ''vel de Dr. Manoel'')
       rain_silhouette_paragraph =
     (''A chuva tamborilava contra as grandes janelas sobre a silhue'' @
       ''ta inconfund'' @ [CHR 0xED] @ ''vel de Dr. Manoel.'')"
    by code_simp
  from both_gates_keep_silhouette_only [OF g] r g show ?thesis
    by (simp only: simp_thms)
qed

section \<open>The Writer behind the engine\<close>

lemma fallback_response_shape:
  "\<exists>rest. fallback_response model prompt =
      (''[Gerado com fallback - Ollama indispon'' @ [CHR 0xED] @ ''vel]'' @
       [CHR 0x0A, CHR 0x0A] @ ''**Cena baseada no brief:** '') @ rest @ '']*''"
  by (simp add: fallback_response_def Let_def)

lemma fallback_response_strip:
  "strip (fallback_response model prompt) = fallback_response model prompt \<and>
   50 \<le> length (fallback_response model prompt)"
proof -
  obtain rest where r: "fallback_response model prompt =
      (''[Gerado com fallback - Ollama indispon'' @ [CHR 0xED] @ ''vel]'' @
       [CHR 0x0A, CHR 0x0A] @ ''**Cena baseada no brief:** '') @ rest @ '']*''"
    using fallback_response_shape by blast
  have "strip (fallback_response model prompt) = fallback_response model prompt"
    unfolding r by (rule strip_unchanged) (simp_all add: is_space_def)
  moreover have "50 \<le> length (fallback_response model prompt)"
    unfolding r by simp
  ultimately show ?thesis by blast
qed

lemma generate_short_reply:
  assumes "ensure_model_loaded model srv"
    and "generate_reply srv = Response 200 (Json (Some t))"
    and "length (strip t) \<le> 50"
  shows "generate model srv prompt = fallback_response model prompt"
  using assms by (simp add: generate_def Let_def)

lemma write_scene_short_reply:
  assumes "\<not> use_fallback w"
    and "ensure_model_loaded (llm_model w) srv"
    and "generate_reply srv = Response 200 (Json (Some t))"
    and "length (strip t) \<le> 50"
  shows "write_scene w srv brief scene_plan =
           fallback_response (llm_model w) (build_prompt w brief scene_plan)"
proof -
  have "generate (llm_model w) srv (build_prompt w brief scene_plan) =
          fallback_response (llm_model w) (build_prompt w brief scene_plan)"
    using assms(2-4) by (rule generate_short_reply)
  then show ?thesis
    using assms(1) fallback_response_strip [of "llm_model w" "build_prompt w brief scene_plan"]
    by (auto simp: write_scene_def write_scene_ai_def Let_def)
qed

lemma generate_stripped_and_long:
  "strip (generate model srv prompt) = generate model srv prompt \<and>
   50 \<le> length (generate model srv prompt)"
  using fallback_response_strip [of model prompt]
  by (auto simp: generate_def Let_def strip_strip split: reply.splits body.splits option.splits)

text \<open>
  Whatever the service answers, the text that \<open>generate\<close> returns is already stripped
  and at least fifty code points long: the branch of \<open>_write_scene_ai\<close> that calls
  \<open>_write_scene_fallback\<close> is never taken.
\<close>

lemma write_scene_ai_is_generate:
  "write_scene_ai w srv brief scene_plan =
     generate (llm_model w) srv (build_prompt w brief scene_plan)"
  using generate_stripped_and_long [of "llm_model w" srv "build_prompt w brief scene_plan"]
  by (auto simp: write_scene_ai_def Let_def)

lemma analyze_masp_brief:
  "analyze_brief masp_brief =
     \<lparr> setting_w = (''MASP (Museu de Arte de S'' @ [CHR 0xE3] @ ''o Paulo)''),
       characters_w = [''Ivana'', ''Dr. Manoel''],
       mood_w = ''tenso'',
       time_w = ''noite'',
       weather_w = ''chuva'',
       action_w = ''encontro'' \<rparr>"
  by code_simp

lemma masp_fallback_starts_with_rain:
  "hd (write_scene_fallback masp_brief scene_plan) = CHR ''A''"
  by (simp add: write_scene_fallback_def generate_scene_content_def analyze_masp_brief
      atmospheric_opening_def masp_rain_opening_def hd_join Let_def)

text \<open>
  C1, evaluated on the code. The service answers the generation request with status 200
  and a text of ten code points. \<open>LLMEngine.generate\<close> replaces that text by its own
  placeholder scene, which is longer than fifty code points, so the length check of
  \<open>Writer._write_scene_ai\<close> passes and \<open>write_scene\<close> returns the placeholder, not the
  text that \<open>_write_scene_fallback\<close> assembles from the features of the brief.
\<close>

theorem short_reply_returns_engine_placeholder:
  "generate_reply short_reply_service = Response 200 (Json (Some (''Ol'' @ [CHR 0xE1] @ '', mundo''))) \<and>
   length (strip (''Ol'' @ [CHR 0xE1] @ '', mundo'')) = 10 \<and>
   write_scene plain_writer short_reply_service masp_brief (plan_scene masp_brief) =
     fallback_response ''llama3.1''
       (build_prompt plain_writer masp_brief (plan_scene masp_brief)) \<and>
   prefix (''[Gerado com fallback - Ollama indispon'' @ [CHR 0xED] @ ''vel]'')
     (write_scene plain_writer short_reply_service masp_brief (plan_scene masp_brief)) \<and>
   write_scene plain_writer short_reply_service masp_brief (plan_scene masp_brief) \<noteq>
     write_scene_fallback masp_brief (plan_scene masp_brief)"
proof -
  have g: "generate_reply short_reply_service = Response 200 (Json (Some (''Ol'' @ [CHR 0xE1] @ '', mundo'')))"
    by (simp add: short_reply_service_def)
  have l: "length (strip (''Ol'' @ [CHR 0xE1] @ '', mundo'')) = 10"
    by code_simp
  have u: "\<not> use_fallback plain_writer" and m: "llm_model plain_writer = ''llama3.1''"
    by (simp_all add: plain_writer_def)
  have e: "ensure_model_loaded (llm_model plain_writer) short_reply_service"
    by code_simp
  have w: "write_scene plain_writer short_reply_service masp_brief (plan_scene masp_brief) =
      fallback_response ''llama3.1'' (build_prompt plain_writer masp_brief (plan_scene masp_brief))"
    using write_scene_short_reply [OF u e g] l m by simp
  obtain rest where r: "fallback_response ''llama3.1''
        (build_prompt plain_writer masp_brief (plan_scene masp_brief)) =
      (''[Gerado com fallback - Ollama indispon'' @ [CHR 0xED] @ ''vel]'' @
       [CHR 0x0A, CHR 0x0A] @ ''**Cena baseada no brief:** '') @ rest @ '']*''"
    using fallback_response_shape by blast
  have p: "prefix (''[Gerado com fallback - Ollama indispon'' @ [CHR 0xED] @ ''vel]'')
      (write_scene plain_writer short_reply_service masp_brief (plan_scene masp_brief))"
    unfolding w r by simp
  have "hd (write_scene plain_writer short_reply_service masp_brief (plan_scene masp_brief)) =
      CHR ''[''"
    unfolding w r by simp
  then have d: "write_scene plain_writer short_reply_service masp_brief (plan_scene masp_brief) \<noteq>
      write_scene_fallback masp_brief (plan_scene masp_brief)"
    using masp_fallback_starts_with_rain [of "plan_scene masp_brief"] by auto
  from g l w p d show ?thesis by blast
qed

section \<open>The final formatting of the Editor\<close>

lemma re_sub_breaks_Nil: "re_sub_breaks s = [] \<longleftrightarrow> s = []"
  by (cases s) simp_all

lemma hd_re_sub_breaks: "hd (re_sub_breaks s) = hd s"
  by (cases s) simp_all

lemma re_sub_breaks_two_newlines:
  assumes "prefix [CHR 0x0A, CHR 0x0A] (re_sub_breaks s)"
  shows "prefix [CHR 0x0A, CHR 0x0A] s"
proof (cases s)
  case Nil
  with assms show ?thesis by simp
next
  case (Cons c cs)
  show ?thesis
  proof (cases "prefix [CHR 0x0A, CHR 0x0A, CHR 0x0A] (c # cs)")
    case True
    then show ?thesis
      unfolding Cons by (auto simp: prefix_def)
  next
    case False
    then have eq: "re_sub_breaks s = c # re_sub_breaks cs"
      unfolding Cons by (simp only: re_sub_breaks.simps if_False)
    from assms have a: "prefix [CHR 0x0A, CHR 0x0A] (c # re_sub_breaks cs)"
      unfolding eq .
    from a have c: "c = CHR 0x0A" and p: "prefix [CHR 0x0A] (re_sub_breaks cs)"
      unfolding Cons_prefix_Cons by blast+
    from p have "re_sub_breaks cs \<noteq> []" and "hd (re_sub_breaks cs) = CHR 0x0A"
      by (auto simp: prefix_def)
    then have "cs \<noteq> []" and "hd cs = CHR 0x0A"
      by (simp_all add: re_sub_breaks_Nil hd_re_sub_breaks)
    then show ?thesis
      unfolding Cons c by (cases cs) simp_all
  qed
qed

lemma re_sub_breaks_no_triple: "\<not> str_in [CHR 0x0A, CHR 0x0A, CHR 0x0A] (re_sub_breaks s)"
proof (induction s rule: re_sub_breaks.induct)
  case 1
  show ?case by simp
next
  case (2 c cs)
  show ?case
  proof (cases "prefix [CHR 0x0A, CHR 0x0A, CHR 0x0A] (c # cs)")
    case True
    let ?rest = "dropWhile (\<lambda>x. x = CHR 0x0A) cs"
    have ih: "\<not> str_in [CHR 0x0A, CHR 0x0A, CHR 0x0A] (re_sub_breaks ?rest)"
      using True by (rule "2.IH"(1))
    have "?rest = [] \<or> hd ?rest \<noteq> CHR 0x0A"
      using hd_dropWhile [of "\<lambda>x. x = CHR 0x0A" cs] by blast
    then have "re_sub_breaks ?rest = [] \<or> hd (re_sub_breaks ?rest) \<noteq> CHR 0x0A"
      by (simp add: re_sub_breaks_Nil hd_re_sub_breaks)
    then have n: "\<not> prefix [CHR 0x0A] (re_sub_breaks ?rest)"
      by (auto simp: prefix_def)
    then have m: "\<not> prefix [CHR 0x0A, CHR 0x0A] (re_sub_breaks ?rest)"
      by (auto simp: prefix_def)
    have "re_sub_breaks (c # cs) = [CHR 0x0A, CHR 0x0A] @ re_sub_breaks ?rest"
      using True by (simp only: re_sub_breaks.simps if_True)
    with ih n m show ?thesis
      by simp
  next
    case False
    have ih: "\<not> str_in [CHR 0x0A, CHR 0x0A, CHR 0x0A] (re_sub_breaks cs)"
      using False by (rule "2.IH"(2))
    have "\<not> prefix [CHR 0x0A, CHR 0x0A, CHR 0x0A] (c # re_sub_breaks cs)"
    proof
      assume a: "prefix [CHR 0x0A, CHR 0x0A, CHR 0x0A] (c # re_sub_breaks cs)"
      from a have c: "c = CHR 0x0A" and r: "prefix [CHR 0x0A, CHR 0x0A] (re_sub_breaks cs)"
        unfolding Cons_prefix_Cons by blast+
      from r have "prefix [CHR 0x0A, CHR 0x0A] cs"
        by (rule re_sub_breaks_two_newlines)
      with c have "prefix [CHR 0x0A, CHR 0x0A, CHR 0x0A] (c # cs)"
        by simp
      with False show False by contradiction
    qed
    moreover have "re_sub_breaks (c # cs) = c # re_sub_breaks cs"
      using False by (simp only: re_sub_breaks.simps if_False)
    ultimately show ?thesis
      using ih by (simp only: str_in.simps simp_thms not_False_eq_True)
  qed
qed

lemma add_final_formatting_no_triple: "\<not> str_in [CHR 0x0A, CHR 0x0A, CHR 0x0A] (add_final_formatting content)"
  using re_sub_breaks_no_triple str_in_strip
  by (auto simp: add_final_formatting_def Let_def)

text \<open>
  C6. For every input, the text returned by the Editor never contains three newlines
  in a row, so at most one blank line separates two paragraphs, and it neither starts
  nor ends with whitespace.
\<close>

theorem edit_scene_breaks_and_margins:
  "\<not> str_in [CHR 0x0A, CHR 0x0A, CHR 0x0A] (edit_scene scene_content brief scene_plan) \<and>
   strip (edit_scene scene_content brief scene_plan) = edit_scene scene_content brief scene_plan \<and>
   (edit_scene scene_content brief scene_plan \<noteq> [] \<longrightarrow>
      \<not> is_space (hd (edit_scene scene_content brief scene_plan)) \<and>
      \<not> is_space (last (edit_scene scene_content brief scene_plan)))"
proof -
  obtain content where e: "edit_scene scene_content brief scene_plan = add_final_formatting content"
    by (simp add: edit_scene_def final_polish_def Let_def)
  obtain formatted where f: "add_final_formatting content = strip formatted"
    by (simp add: add_final_formatting_def Let_def)
  show ?thesis
    unfolding e using add_final_formatting_no_triple [of content]
    unfolding f using strip_margins [of formatted] strip_strip [of formatted]
    by blast
qed

theorem edit_scene_breaks_and_margins_witness:
  "edit_scene (''  Um.'' @ [CHR 0x0A, CHR 0x0A, CHR 0x0A, CHR 0x0A, CHR 0x22] @
       ''Dois'' @ [CHR 0x22] @ '' '' @ [CHR 0x0A]) [] [] = (''Um.'' @ [CHR 0x0A, CHR 0x0A, CHR 0x22] @ ''Dois'' @ [CHR 0x22]) \<and>
   edit_scene (''  Um.'' @ [CHR 0x0A, CHR 0x0A, CHR 0x0A, CHR 0x0A, CHR 0x22] @
       ''Dois'' @ [CHR 0x22] @ '' '' @ [CHR 0x0A]) [] [] \<noteq> [] \<and>
   \<not> str_in [CHR 0x0A, CHR 0x0A, CHR 0x0A] (edit_scene (''  Um.'' @ [CHR 0x0A, CHR 0x0A, CHR 0x0A, CHR 0x0A, CHR 0x22] @
       ''Dois'' @ [CHR 0x22] @ '' '' @ [CHR 0x0A]) [] []) \<and>
   \<not> is_space (hd (edit_scene (''  Um.'' @ [CHR 0x0A, CHR 0x0A, CHR 0x0A, CHR 0x0A, CHR 0x22] @
       ''Dois'' @ [CHR 0x22] @ '' '' @ [CHR 0x0A]) [] [])) \<and>
   \<not> is_space (last (edit_scene (''  Um.'' @ [CHR 0x0A, CHR 0x0A, CHR 0x0A, CHR 0x0A, CHR 0x22] @
       ''Dois'' @ [CHR 0x22] @ '' '' @ [CHR 0x0A]) [] []))"
proof -
  have v: "edit_scene (''  Um.'' @ [CHR 0x0A, CHR 0x0A, CHR 0x0A, CHR 0x0A, CHR 0x22] @
       ''Dois'' @ [CHR 0x22] @ '' '' @ [CHR 0x0A]) [] [] = (''Um.'' @ [CHR 0x0A, CHR 0x0A, CHR 0x22] @ ''Dois'' @ [CHR 0x22])"
    by code_simp
  then have n: "edit_scene (''  Um.'' @ [CHR 0x0A, CHR 0x0A, CHR 0x0A, CHR 0x0A, CHR 0x22] @
       ''Dois'' @ [CHR 0x22] @ '' '' @ [CHR 0x0A]) [] [] \<noteq> []"
    by simp
  from edit_scene_breaks_and_margins [of "(''  Um.'' @ [CHR 0x0A, CHR 0x0A, CHR 0x0A, CHR 0x0A, CHR 0x22] @
       ''Dois'' @ [CHR 0x22] @ '' '' @ [CHR 0x0A])" "[]" "[]"] n v
  show ?thesis by blast
qed

section \<open>The literal corrections of the Editor\<close>

text \<open>
  C5, evaluated on the code. The literal-correction pass is not idempotent. On three
  spaces the first pass returns two spaces, so its output still holds the double space
  that the third correction is there to remove, and only a second pass returns one
  space. In the same way four newlines leave three after one pass and two after the
  second.
\<close>

theorem style_corrections_three_spaces:
  "apply_style_corrections ''   '' = ''  '' \<and>
   str_in ''  '' (apply_style_corrections ''   '') \<and>
   apply_style_corrections (apply_style_corrections ''   '') = '' '' \<and>
   apply_style_corrections (apply_style_corrections ''   '') \<noteq> apply_style_corrections ''   '' \<and>
   apply_style_corrections [CHR 0x0A, CHR 0x0A, CHR 0x0A, CHR 0x0A] = [CHR 0x0A, CHR 0x0A, CHR 0x0A] \<and>
   str_in [CHR 0x0A, CHR 0x0A, CHR 0x0A] (apply_style_corrections [CHR 0x0A, CHR 0x0A, CHR 0x0A, CHR 0x0A]) \<and>
   apply_style_corrections (apply_style_corrections [CHR 0x0A, CHR 0x0A, CHR 0x0A, CHR 0x0A]) = [CHR 0x0A, CHR 0x0A] \<and>
   apply_style_corrections ''a  b'' = ''a b''"
  by code_simp

end
